theory Spec2Isabelle
  imports Complex_Main
begin

section \<open>Values of a price frame\<close>

text \<open>
  The cells of the frames are 64-bit floats. A cell is modelled as a finite number, one of
  the two infinities, or the not-a-number value that pandas uses for a missing entry.
  Finite numbers are exact reals: rounding, overflow and the sign of zero are outside
  the model. The special values follow IEEE 754 as numpy applies it to float64 scalars
  and arrays: a division by zero gives an infinity or NaN and raises nothing. The
  fluctuation check, whose outcome depends on rounding, is given a second time with its
  operations rounded as binary64 does.
\<close>

datatype fval = Num real | PInf | NInf | NaN

fun fneg :: "fval \<Rightarrow> fval" where
  "fneg (Num a) = Num (- a)"
| "fneg PInf = NInf"
| "fneg NInf = PInf"
| "fneg NaN = NaN"

fun fadd :: "fval \<Rightarrow> fval \<Rightarrow> fval" where
  "fadd (Num a) (Num b) = Num (a + b)"
| "fadd NaN _ = NaN"
| "fadd _ NaN = NaN"
| "fadd PInf NInf = NaN"
| "fadd NInf PInf = NaN"
| "fadd PInf _ = PInf"
| "fadd _ PInf = PInf"
| "fadd NInf _ = NInf"
| "fadd _ NInf = NInf"

definition fsub :: "fval \<Rightarrow> fval \<Rightarrow> fval" where
  "fsub a b = fadd a (fneg b)"

fun fmul :: "fval \<Rightarrow> fval \<Rightarrow> fval" where
  "fmul (Num a) (Num b) = Num (a * b)"
| "fmul NaN _ = NaN"
| "fmul _ NaN = NaN"
| "fmul PInf (Num b) = (if 0 < b then PInf else if b < 0 then NInf else NaN)"
| "fmul NInf (Num b) = (if 0 < b then NInf else if b < 0 then PInf else NaN)"
| "fmul (Num a) PInf = (if 0 < a then PInf else if a < 0 then NInf else NaN)"
| "fmul (Num a) NInf = (if 0 < a then NInf else if a < 0 then PInf else NaN)"
| "fmul PInf PInf = PInf"
| "fmul PInf NInf = NInf"
| "fmul NInf PInf = NInf"
| "fmul NInf NInf = PInf"

fun fdiv :: "fval \<Rightarrow> fval \<Rightarrow> fval" where
  "fdiv (Num a) (Num b) =
     (if b \<noteq> 0 then Num (a / b)
      else if 0 < a then PInf else if a < 0 then NInf else NaN)"
| "fdiv NaN _ = NaN"
| "fdiv _ NaN = NaN"
| "fdiv (Num a) PInf = Num 0"
| "fdiv (Num a) NInf = Num 0"
| "fdiv PInf (Num b) = (if 0 \<le> b then PInf else NInf)"
| "fdiv NInf (Num b) = (if 0 \<le> b then NInf else PInf)"
| "fdiv PInf PInf = NaN"
| "fdiv PInf NInf = NaN"
| "fdiv NInf PInf = NaN"
| "fdiv NInf NInf = NaN"

text \<open>\<open>fgt a b\<close> is the comparison \<open>a > b\<close>: false as soon as one side is NaN.\<close>

fun fgt :: "fval \<Rightarrow> fval \<Rightarrow> bool" where
  "fgt (Num a) (Num b) = (b < a)"
| "fgt NaN _ = False"
| "fgt _ NaN = False"
| "fgt PInf PInf = False"
| "fgt PInf _ = True"
| "fgt NInf _ = False"
| "fgt (Num a) PInf = False"
| "fgt (Num a) NInf = True"

fun fsqrt :: "fval \<Rightarrow> fval" where
  "fsqrt (Num a) = (if 0 \<le> a then Num (sqrt a) else NaN)"
| "fsqrt PInf = PInf"
| "fsqrt NInf = NaN"
| "fsqrt NaN = NaN"

text \<open>
  \<open>round(x, 2)\<close> on a float64 scalar: the value times 100 is rounded to the nearest
  integer, a tie going to the even neighbour, and divided by 100 again. NaN and the
  infinities are returned as they are.
\<close>

definition round_half_even :: "real \<Rightarrow> int" where
  "round_half_even y =
     (let f = \<lfloor>y\<rfloor> in
      if y - of_int f < 1 / 2 then f
      else if 1 / 2 < y - of_int f then f + 1
      else if even f then f else f + 1)"

fun round2 :: "fval \<Rightarrow> fval" where
  "round2 (Num a) = Num (of_int (round_half_even (a * 100)) / 100)"
| "round2 v = v"

definition is_num :: "fval \<Rightarrow> bool" where
  "is_num v = (case v of Num _ \<Rightarrow> True | _ \<Rightarrow> False)"

definition num_of :: "fval \<Rightarrow> real" where
  "num_of v = (case v of Num a \<Rightarrow> a | _ \<Rightarrow> 0)"

section \<open>Frames, the object store and the console\<close>

text \<open>
  A DataFrame is its row index (the dates of the bars, as day numbers) and its columns in
  order, each a label with one cell per row. Labels can repeat after a concatenation,
  so the columns are an association list. \<open>data[label]\<close> raises KeyError for
  an absent label; \<open>data[label] = series\<close> replaces the column carrying the
  label where it stands, or appends a new column. A label that is read is taken to stand
  on one column only: with a repeated label \<open>data[label]\<close> is a frame, not a
  series, which the model does not cover.
\<close>

datatype py_error = KeyError | ValueError | TypeError | IndexError

record frame =
  index :: "int list"
  columns :: "(string \<times> fval list) list"

definition getitem :: "frame \<Rightarrow> string \<Rightarrow> py_error + fval list" where
  "getitem df label =
     (case map_of (columns df) label of None \<Rightarrow> Inl KeyError | Some c \<Rightarrow> Inr c)"

fun set_col :: "string \<Rightarrow> fval list \<Rightarrow> (string \<times> fval list) list \<Rightarrow> (string \<times> fval list) list" where
  "set_col label c [] = [(label, c)]"
| "set_col label c ((k, v) # cs) =
     (if k = label then (k, c) # cs else (k, v) # set_col label c cs)"

definition setitem :: "frame \<Rightarrow> string \<Rightarrow> fval list \<Rightarrow> frame" where
  "setitem df label c = df\<lparr>columns := set_col label c (columns df)\<rparr>"

text \<open>
  Python passes frames by reference, so the frames live in a store: \<open>frames\<close>
  maps a reference to the frame it denotes, \<open>fresh\<close> is the next unused reference,
  and \<open>out\<close> is what has been printed so far, one entry per \<open>print\<close> site
  reached (the Russian wording of the messages is not modelled).
\<close>

type_synonym ref = nat

record alert =
  alert_ticker :: string
  alert_min_price :: fval
  alert_max_price :: fval
  alert_fluctuation_percent :: fval

record stats =
  std_deviation :: fval
  variance :: fval
  min_price :: fval
  max_price :: fval
  price_range :: fval
  coefficient_variation :: fval

record analysis =
  mean_daily_return :: fval
  daily_volatility :: fval
  annualized_volatility :: fval
  start_price :: fval
  end_price :: fval
  total_return_percent :: fval

datatype msg =
    MovingAverageError py_error
  | NoDataForFluctuations
  | FluctuationWarning string
  | PriceRangeLine fval fval
  | FluctuationPercentLine fval
  | FluctuationError py_error
  | NotEnoughDataRSI
  | RSIError py_error
  | NotEnoughDataMACD
  | MACDError py_error
  | NoDataForIndicators
  | IndicatorsError py_error
  | StatsReport stats
  | StatsError py_error
  | AnalysisReport analysis
  | AnalysisError py_error

record store =
  frames :: "ref \<Rightarrow> frame"
  fresh :: ref
  out :: "msg list"

definition say :: "msg \<Rightarrow> store \<Rightarrow> store" where
  "say m s = s\<lparr>out := out s @ [m]\<rparr>"

definition alloc :: "frame \<Rightarrow> store \<Rightarrow> ref \<times> store" where
  "alloc df s = (fresh s, s\<lparr>frames := (frames s)(fresh s := df), fresh := Suc (fresh s)\<rparr>)"

definition put_frame :: "ref \<Rightarrow> frame \<Rightarrow> store \<Rightarrow> store" where
  "put_frame r df s = s\<lparr>frames := (frames s)(r := df)\<rparr>"

section \<open>The rolling mean\<close>

text \<open>
  \<open>series.rolling(window=w).mean()\<close>. pandas refuses a negative window with
  ValueError and accepts zero. The minimum number of observations is the window itself.
  Infinite cells are turned into NaN first; then one pass keeps the number of observations
  and their sum for the window \<open>[i + 1 - w, i + 1)\<close> of row \<open>i\<close>, removing the cells
  that left the window and adding those that entered, and starts afresh when the window
  shares nothing with the previous one. A NaN cell is no observation. The compensated
  summation and the sign corrections of the library only counter rounding and have no
  counterpart on exact numbers.
\<close>

definition prep_values :: "fval list \<Rightarrow> fval list" where
  "prep_values xs = map (\<lambda>v. if is_num v then v else NaN) xs"

definition slice :: "'a list \<Rightarrow> nat \<Rightarrow> nat \<Rightarrow> 'a list" where
  "slice xs a b = take (b - a) (drop a xs)"

fun add_mean :: "fval \<Rightarrow> nat \<times> real \<Rightarrow> nat \<times> real" where
  "add_mean (Num a) (nobs, sum_x) = (Suc nobs, sum_x + a)"
| "add_mean _ st = st"

fun remove_mean :: "fval \<Rightarrow> nat \<times> real \<Rightarrow> nat \<times> real" where
  "remove_mean (Num a) (nobs, sum_x) = (nobs - 1, sum_x - a)"
| "remove_mean _ st = st"

definition calc_mean :: "nat \<Rightarrow> nat \<times> real \<Rightarrow> fval" where
  "calc_mean minp st =
     (if minp \<le> fst st \<and> 0 < fst st then Num (snd st / real (fst st)) else NaN)"

definition roll_step :: "nat \<Rightarrow> fval list \<Rightarrow> nat \<Rightarrow> (nat \<times> real) \<times> fval list \<Rightarrow> (nat \<times> real) \<times> fval list" where
  "roll_step w vals i acc =
     (let s = i + 1 - w; e = i + 1;
          st = (if i = 0 \<or> i \<le> s
                then fold add_mean (slice vals s e) (0, 0)
                else fold add_mean (slice vals i e)
                       (fold remove_mean (slice vals (i - w) s) (fst acc)))
      in (st, snd acc @ [calc_mean w st]))"

definition roll_mean :: "nat \<Rightarrow> fval list \<Rightarrow> fval list" where
  "roll_mean w vals = snd (fold (roll_step w vals) [0..<length vals] ((0, 0), []))"

definition rolling_mean :: "int \<Rightarrow> fval list \<Rightarrow> py_error + fval list" where
  "rolling_mean window xs =
     (if window < 0 then Inl ValueError
      else Inr (roll_mean (nat window) (prep_values xs)))"

section \<open>Moving average\<close>

text \<open>
  \<open>add_moving_average\<close> (src/data_download.py, lines 52 to 61). \<open>None\<close> is
  returned for \<open>None\<close>. Inside the \<open>try\<close> the column \<open>Moving_Average\<close> of
  the frame that was passed is assigned and that frame is returned; on any exception a
  message is printed and the frame is returned as it is.
\<close>

definition add_moving_average :: "store \<Rightarrow> ref option \<Rightarrow> int \<Rightarrow> ref option \<times> store" where
  "add_moving_average s data window_size =
     (case data of
        None \<Rightarrow> (None, s)
      | Some r \<Rightarrow>
          (case getitem (frames s r) ''Close'' of
             Inl e \<Rightarrow> (data, say (MovingAverageError e) s)
           | Inr close \<Rightarrow>
               (case rolling_mean window_size close of
                  Inl e \<Rightarrow> (data, say (MovingAverageError e) s)
                | Inr ma \<Rightarrow>
                    (data, put_frame r (setitem (frames s r) ''Moving_Average'' ma) s))))"

section \<open>Relative strength index\<close>

text \<open>
  \<open>diff\<close> is the change from the previous row (NaN in the first row);
  \<open>clip(lower=0)\<close> and \<open>clip(upper=0)\<close> bound a cell on one side and keep NaN.
\<close>

definition diff :: "fval list \<Rightarrow> fval list" where
  "diff xs = (case xs of [] \<Rightarrow> [] | _ # t \<Rightarrow> NaN # map (\<lambda>(a, b). fsub a b) (zip t xs))"

fun clip_lower :: "real \<Rightarrow> fval \<Rightarrow> fval" where
  "clip_lower l (Num a) = Num (max a l)"
| "clip_lower l PInf = PInf"
| "clip_lower l NInf = Num l"
| "clip_lower l NaN = NaN"

fun clip_upper :: "real \<Rightarrow> fval \<Rightarrow> fval" where
  "clip_upper u (Num a) = Num (min a u)"
| "clip_upper u PInf = Num u"
| "clip_upper u NInf = NInf"
| "clip_upper u NaN = NaN"

definition gain_of :: "fval list \<Rightarrow> fval list" where
  "gain_of close = map (clip_lower 0) (diff close)"

definition loss_of :: "fval list \<Rightarrow> fval list" where
  "loss_of close = map (\<lambda>d. fneg (clip_upper 0 d)) (diff close)"

definition avg_gain_of :: "fval list \<Rightarrow> int \<Rightarrow> py_error + fval list" where
  "avg_gain_of close periods = rolling_mean periods (gain_of close)"

definition avg_loss_of :: "fval list \<Rightarrow> int \<Rightarrow> py_error + fval list" where
  "avg_loss_of close periods = rolling_mean periods (loss_of close)"

definition rsi_value :: "fval \<Rightarrow> fval \<Rightarrow> fval" where
  "rsi_value avg_gain avg_loss =
     (let relative_strength = fdiv avg_gain avg_loss
      in fsub (Num 100) (fdiv (Num 100) (fadd (Num 1) relative_strength)))"

definition rsi_of_close :: "fval list \<Rightarrow> int \<Rightarrow> py_error + fval list" where
  "rsi_of_close close periods =
     (case avg_gain_of close periods of
        Inl e \<Rightarrow> Inl e
      | Inr avg_gain \<Rightarrow>
          (case avg_loss_of close periods of
             Inl e \<Rightarrow> Inl e
           | Inr avg_loss \<Rightarrow> Inr (map (\<lambda>(g, l). rsi_value g l) (zip avg_gain avg_loss))))"

definition has_column :: "frame \<Rightarrow> string \<Rightarrow> bool" where
  "has_column df label = (label \<in> set (map fst (columns df)))"

text \<open>
  \<open>calculate_rsi\<close> (lines 163 to 196). Without a frame or without a \<open>Close\<close>
  column a message is printed and \<open>None\<close> returned; an exception in the body prints
  a message and returns \<open>None\<close>; otherwise the series is returned.
\<close>

definition calculate_rsi :: "store \<Rightarrow> ref option \<Rightarrow> int \<Rightarrow> fval list option \<times> store" where
  "calculate_rsi s data periods =
     (case data of
        None \<Rightarrow> (None, say NotEnoughDataRSI s)
      | Some r \<Rightarrow>
          if \<not> has_column (frames s r) ''Close'' then (None, say NotEnoughDataRSI s)
          else
            (case getitem (frames s r) ''Close'' of
               Inl e \<Rightarrow> (None, say (RSIError e) s)
             | Inr close \<Rightarrow>
                 (case rsi_of_close close periods of
                    Inl e \<Rightarrow> (None, say (RSIError e) s)
                  | Inr rsi \<Rightarrow> (Some rsi, s))))"

section \<open>MACD\<close>

text \<open>
  \<open>series.ewm(span=n, adjust=False).mean()\<close>. pandas refuses a span below 1 with
  ValueError; the smoothing factor is \<open>1 / (1 + com)\<close> with \<open>com = (n - 1) / 2\<close>.
  Infinite cells are turned into NaN first. The pass keeps the running average and the
  weight of the past: the first cell seeds the average; an observation moves it to the
  weighted mean of itself and the past, and the weight of the past returns to 1; a NaN
  cell only ages the past; while the average is still NaN the next observation seeds it.
  The cell written is the running average (NaN until one observation has been seen).
\<close>

definition ewm_step :: "real \<Rightarrow> fval \<Rightarrow> (fval \<times> real) \<times> fval list \<Rightarrow> (fval \<times> real) \<times> fval list" where
  "ewm_step alpha cur acc =
     (let weighted = fst (fst acc); old_wt = snd (fst acc);
          st = (if is_num weighted then
                  (let old_wt1 = old_wt * (1 - alpha) in
                   if is_num cur then
                     ((if weighted \<noteq> cur
                       then Num ((old_wt1 * num_of weighted + alpha * num_of cur) / (old_wt1 + alpha))
                       else weighted), 1)
                   else (weighted, old_wt1))
                else if is_num cur then (cur, old_wt)
                else (weighted, old_wt))
      in (st, snd acc @ [fst st]))"

definition ewm_mean :: "int \<Rightarrow> fval list \<Rightarrow> py_error + fval list" where
  "ewm_mean span_n xs =
     (if span_n < 1 then Inl ValueError
      else
        (let com = (real_of_int span_n - 1) / 2; alpha = 1 / (1 + com)
         in Inr (case prep_values xs of
                   [] \<Rightarrow> []
                 | v # vs \<Rightarrow> snd (fold (ewm_step alpha) vs ((v, 1), [v])))))"

definition series_sub :: "fval list \<Rightarrow> fval list \<Rightarrow> fval list" where
  "series_sub xs ys = map (\<lambda>(a, b). fsub a b) (zip xs ys)"

record macd_lines =
  macd_line :: "fval list"
  signal_line :: "fval list"
  histogram :: "fval list"

definition macd_of_close :: "fval list \<Rightarrow> int \<Rightarrow> int \<Rightarrow> int \<Rightarrow> py_error + macd_lines" where
  "macd_of_close close fast_period slow_period signal_period =
     (case ewm_mean fast_period close of
        Inl e \<Rightarrow> Inl e
      | Inr exp1 \<Rightarrow>
          (case ewm_mean slow_period close of
             Inl e \<Rightarrow> Inl e
           | Inr exp2 \<Rightarrow>
               (let macd = series_sub exp1 exp2 in
                case ewm_mean signal_period macd of
                  Inl e \<Rightarrow> Inl e
                | Inr sig \<Rightarrow>
                    Inr \<lparr>macd_line = macd, signal_line = sig, histogram = series_sub macd sig\<rparr>)))"

definition macd_frame :: "int list \<Rightarrow> macd_lines \<Rightarrow> frame" where
  "macd_frame idx m =
     \<lparr>index = idx,
      columns = [(''MACD'', macd_line m), (''Signal_Line'', signal_line m),
                 (''Histogram'', histogram m)]\<rparr>"

text \<open>
  \<open>calculate_macd\<close> (lines 199 to 237), with the same guards as \<open>calculate_rsi\<close>.
  The result is a new frame over the index of the input with the three lines as columns.
\<close>

definition calculate_macd :: "store \<Rightarrow> ref option \<Rightarrow> int \<Rightarrow> int \<Rightarrow> int \<Rightarrow> frame option \<times> store" where
  "calculate_macd s data fast_period slow_period signal_period =
     (case data of
        None \<Rightarrow> (None, say NotEnoughDataMACD s)
      | Some r \<Rightarrow>
          if \<not> has_column (frames s r) ''Close'' then (None, say NotEnoughDataMACD s)
          else
            (case getitem (frames s r) ''Close'' of
               Inl e \<Rightarrow> (None, say (MACDError e) s)
             | Inr close \<Rightarrow>
                 (case macd_of_close close fast_period slow_period signal_period of
                    Inl e \<Rightarrow> (None, say (MACDError e) s)
                  | Inr m \<Rightarrow> (Some (macd_frame (index (frames s r)) m), s))))"

section \<open>Adding the indicators to a copy\<close>

text \<open>
  \<open>data.copy()\<close> allocates a new frame with the same contents. Assigning the
  result of \<open>calculate_rsi\<close> writes the column \<open>RSI\<close> of the copy; when that
  result is \<open>None\<close> every row of the column is missing, written NaN here.
  \<open>pd.concat([a, b], axis=1)\<close> of two frames over the same index allocates a frame
  with the columns of \<open>a\<close> followed by those of \<open>b\<close>; the name
  \<open>indicators_data\<close> is then bound to it. The periods are the defaults of the two
  indicator functions. On frames of floats no step of the body raises, so the message of
  its handler is never printed.
\<close>

text \<open>\<open>add_technical_indicators\<close> (lines 240 to 271).\<close>

definition concat_columns :: "frame \<Rightarrow> frame \<Rightarrow> frame" where
  "concat_columns a b = \<lparr>index = index a, columns = columns a @ columns b\<rparr>"

definition add_technical_indicators :: "store \<Rightarrow> ref option \<Rightarrow> bool \<Rightarrow> bool \<Rightarrow> ref option \<times> store" where
  "add_technical_indicators s data add_rsi add_macd =
     (case data of
        None \<Rightarrow> (None, say NoDataForIndicators s)
      | Some r \<Rightarrow>
          (let (indicators_data, s1) = alloc (frames s r) s;
               s2 = (if add_rsi then
                       (let (rsi, s') = calculate_rsi s1 data 14;
                            col = (case rsi of
                                     Some v \<Rightarrow> v
                                   | None \<Rightarrow> replicate (length (index (frames s' indicators_data))) NaN)
                        in put_frame indicators_data
                             (setitem (frames s' indicators_data) ''RSI'' col) s')
                     else s1)
           in if add_macd then
                (let (macd_indicators, s3) = calculate_macd s2 data 12 26 9 in
                 case macd_indicators of
                   None \<Rightarrow> (Some indicators_data, s3)
                 | Some m \<Rightarrow>
                     (let (joined, s4) = alloc (concat_columns (frames s3 indicators_data) m) s3
                      in (Some joined, s4)))
              else (Some indicators_data, s2)))"

section \<open>Reductions of a series\<close>

text \<open>
  \<open>min\<close>, \<open>max\<close>, \<open>mean\<close>, \<open>var\<close> and \<open>std\<close> of a series skip the
  NaN cells. With no cell left the result is NaN; the variance and the standard deviation
  divide by the number of cells left minus one and are NaN when at most one is left.
\<close>

definition drop_nan :: "fval list \<Rightarrow> fval list" where
  "drop_nan xs = filter (\<lambda>v. v \<noteq> NaN) xs"

definition fmin :: "fval \<Rightarrow> fval \<Rightarrow> fval" where
  "fmin a b = (if fgt a b then b else a)"

definition fmax :: "fval \<Rightarrow> fval \<Rightarrow> fval" where
  "fmax a b = (if fgt b a then b else a)"

definition series_min :: "fval list \<Rightarrow> fval" where
  "series_min xs = (case drop_nan xs of [] \<Rightarrow> NaN | y # ys \<Rightarrow> fold fmin ys y)"

definition series_max :: "fval list \<Rightarrow> fval" where
  "series_max xs = (case drop_nan xs of [] \<Rightarrow> NaN | y # ys \<Rightarrow> fold fmax ys y)"

definition fsum :: "fval list \<Rightarrow> fval" where
  "fsum xs = fold (\<lambda>v acc. fadd acc v) xs (Num 0)"

definition series_mean :: "fval list \<Rightarrow> fval" where
  "series_mean xs =
     (let ys = drop_nan xs in
      if ys = [] then NaN else fdiv (fsum ys) (Num (real (length ys))))"

definition series_var :: "fval list \<Rightarrow> fval" where
  "series_var xs =
     (let ys = drop_nan xs; n = length ys in
      if n \<le> 1 then NaN
      else
        (let avg = fdiv (fsum ys) (Num (real n));
             sqr = map (\<lambda>v. let d = fsub avg v in fmul d d) ys
         in fdiv (fsum sqr) (Num (real (n - 1)))))"

definition series_std :: "fval list \<Rightarrow> fval" where
  "series_std xs = fsqrt (series_var xs)"

section \<open>Dispersion statistics\<close>

text \<open>
  \<open>calculate_standard_deviation\<close> (lines 274 to 309). The whole body is inside the
  \<open>try\<close>: subscripting \<open>None\<close> raises TypeError, an absent column KeyError; the
  handler prints a message and returns \<open>None\<close>. Otherwise the six statistics are
  computed, printed and returned; formatting NaN or an infinity raises nothing.
\<close>

definition stats_of :: "fval list \<Rightarrow> stats" where
  "stats_of c =
     \<lparr>std_deviation = series_std c,
      variance = series_var c,
      min_price = series_min c,
      max_price = series_max c,
      price_range = fsub (series_max c) (series_min c),
      coefficient_variation = fmul (fdiv (series_std c) (series_mean c)) (Num 100)\<rparr>"

definition calculate_standard_deviation :: "store \<Rightarrow> ref option \<Rightarrow> string \<Rightarrow> stats option \<times> store" where
  "calculate_standard_deviation s data column =
     (case data of
        None \<Rightarrow> (None, say (StatsError TypeError) s)
      | Some r \<Rightarrow>
          (case getitem (frames s r) column of
             Inl e \<Rightarrow> (None, say (StatsError e) s)
           | Inr c \<Rightarrow> (Some (stats_of c), say (StatsReport (stats_of c)) s)))"

section \<open>Trend and volatility\<close>

text \<open>
  \<open>pct_change()\<close> fills a NaN cell with the last cell before it that is not NaN,
  then divides every row by the previous one and subtracts 1; the first row is NaN.
  \<open>iloc[0]\<close> and \<open>iloc[-1]\<close> raise IndexError on a series with no row.
\<close>

fun ffill_from :: "fval \<Rightarrow> fval list \<Rightarrow> fval list" where
  "ffill_from prev [] = []"
| "ffill_from prev (x # xs) =
     (if x = NaN then prev # ffill_from prev xs else x # ffill_from x xs)"

definition shift :: "fval list \<Rightarrow> fval list" where
  "shift xs = NaN # butlast xs"

definition pct_change :: "fval list \<Rightarrow> fval list" where
  "pct_change xs =
     (let filled = ffill_from NaN xs
      in map (\<lambda>(a, b). fsub (fdiv a b) (Num 1)) (zip filled (shift filled)))"

definition iloc_first :: "fval list \<Rightarrow> py_error + fval" where
  "iloc_first xs = (case xs of [] \<Rightarrow> Inl IndexError | x # _ \<Rightarrow> Inr x)"

definition iloc_last :: "fval list \<Rightarrow> py_error + fval" where
  "iloc_last xs = (if xs = [] then Inl IndexError else Inr (last xs))"

text \<open>
  \<open>advanced_price_analysis\<close> (lines 312 to 354), built like
  \<open>calculate_standard_deviation\<close>: the returns and their statistics first, then the
  first and the last close and the total return.
\<close>

definition analysis_of :: "fval list \<Rightarrow> py_error + analysis" where
  "analysis_of close =
     (let daily_returns = pct_change close in
      case iloc_first close of
        Inl e \<Rightarrow> Inl e
      | Inr p0 \<Rightarrow>
          (case iloc_last close of
             Inl e \<Rightarrow> Inl e
           | Inr p1 \<Rightarrow>
               Inr \<lparr>mean_daily_return = series_mean daily_returns,
                    daily_volatility = series_std daily_returns,
                    annualized_volatility = fmul (series_std daily_returns) (Num (sqrt 252)),
                    start_price = p0,
                    end_price = p1,
                    total_return_percent = fmul (fdiv (fsub p1 p0) p0) (Num 100)\<rparr>))"

definition advanced_price_analysis :: "store \<Rightarrow> ref option \<Rightarrow> analysis option \<times> store" where
  "advanced_price_analysis s data =
     (case data of
        None \<Rightarrow> (None, say (AnalysisError TypeError) s)
      | Some r \<Rightarrow>
          (case getitem (frames s r) ''Close'' of
             Inl e \<Rightarrow> (None, say (AnalysisError e) s)
           | Inr close \<Rightarrow>
               (case analysis_of close of
                  Inl e \<Rightarrow> (None, say (AnalysisError e) s)
                | Inr a \<Rightarrow> (Some a, say (AnalysisReport a) s))))"

section \<open>Fluctuation alert\<close>

text \<open>
  \<open>notify_if_strong_fluctuations\<close> (lines 78 to 121). Without a frame a message is
  printed and \<open>None\<close> returned. The range percent is compared with the threshold
  (a finite number): above it, three lines are printed and the alert is returned with the
  range percent rounded; otherwise \<open>None\<close> is returned and nothing is printed. An
  exception prints a message and returns \<open>None\<close>. The arithmetic here is exact;
  the section on binary64 below has the same check with rounded operations.
\<close>

definition range_percent :: "fval list \<Rightarrow> fval" where
  "range_percent close_prices =
     (let min_price = series_min close_prices; max_price = series_max close_prices
      in fmul (fdiv (fsub max_price min_price) min_price) (Num 100))"

definition notify_if_strong_fluctuations :: "store \<Rightarrow> ref option \<Rightarrow> string \<Rightarrow> real \<Rightarrow> alert option \<times> store" where
  "notify_if_strong_fluctuations s data ticker threshold =
     (case data of
        None \<Rightarrow> (None, say NoDataForFluctuations s)
      | Some r \<Rightarrow>
          (case getitem (frames s r) ''Close'' of
             Inl e \<Rightarrow> (None, say (FluctuationError e) s)
           | Inr close_prices \<Rightarrow>
               (let min_price = series_min close_prices;
                    max_price = series_max close_prices;
                    price_range_percent = range_percent close_prices
                in if fgt price_range_percent (Num threshold) then
                     (Some \<lparr>alert_ticker = ticker,
                            alert_min_price = min_price,
                            alert_max_price = max_price,
                            alert_fluctuation_percent = round2 price_range_percent\<rparr>,
                      say (FluctuationPercentLine price_range_percent)
                        (say (PriceRangeLine min_price max_price)
                           (say (FluctuationWarning ticker) s)))
                   else (None, s))))"

section \<open>The fluctuation alert in binary64\<close>

text \<open>
  The scalar operations of \<open>notify_if_strong_fluctuations\<close> work on float64 values,
  and whether the range percent passes the threshold, and what it rounds to, depends on
  their rounding. \<open>fl\<close> rounds an exact result as binary64 does: to the nearest
  double, a tie going to the even mantissa; 53 bits of mantissa from \<open>2 ^ - 1022\<close>
  on and the fixed spacing \<open>2 ^ - 1074\<close> below; an infinity when the rounded value
  reaches \<open>2 ^ 1024\<close>. The sign of a zero result is not kept.
\<close>

definition pow2 :: "int \<Rightarrow> real" where
  "pow2 k = (if 0 \<le> k then 2 ^ nat k else 1 / 2 ^ nat (- k))"

definition fl :: "real \<Rightarrow> fval" where
  "fl x =
     (if x = 0 then Num 0
      else
        (let e = max \<lfloor>log 2 \<bar>x\<bar>\<rfloor> (- 1022);
             q = pow2 (e - 52);
             y = of_int (round_half_even (x / q)) * q
         in if pow2 1024 \<le> \<bar>y\<bar> then (if 0 < x then PInf else NInf) else Num y))"

definition is_f64 :: "real \<Rightarrow> bool" where
  "is_f64 x = (fl x = Num x)"

text \<open>
  Subtraction, multiplication and division of two finite values round their exact
  result; with a NaN, an infinity or a zero divisor they are the operations on special
  values above. \<open>rint\<close> is the nearest integer, ties to even.
  \<open>round(x, 2)\<close> on a float64 scalar is numpy's: times 100, \<open>rint\<close>, divided
  by 100, each a float64 operation.
\<close>

fun dsub :: "fval \<Rightarrow> fval \<Rightarrow> fval" where
  "dsub (Num a) (Num b) = fl (a - b)"
| "dsub a b = fsub a b"

fun dmul :: "fval \<Rightarrow> fval \<Rightarrow> fval" where
  "dmul (Num a) (Num b) = fl (a * b)"
| "dmul a b = fmul a b"

fun ddiv :: "fval \<Rightarrow> fval \<Rightarrow> fval" where
  "ddiv (Num a) (Num b) = (if b = 0 then fdiv (Num a) (Num b) else fl (a / b))"
| "ddiv a b = fdiv a b"

fun rint :: "fval \<Rightarrow> fval" where
  "rint (Num a) = Num (of_int (round_half_even a))"
| "rint v = v"

definition round2_f64 :: "fval \<Rightarrow> fval" where
  "round2_f64 v = ddiv (rint (dmul v (Num 100))) (Num 100)"

text \<open>
  Lines 87 to 121 once more, with these operations in line 100 (the range percent) and
  line 108 (the rounding). The version above computes on exact numbers; the two agree
  where no finite result is rounded, as at a minimum of 0.
\<close>

definition range_percent_f64 :: "fval list \<Rightarrow> fval" where
  "range_percent_f64 close_prices =
     (let min_price = series_min close_prices; max_price = series_max close_prices
      in dmul (ddiv (dsub max_price min_price) min_price) (Num 100))"

definition notify_if_strong_fluctuations_f64 :: "store \<Rightarrow> ref option \<Rightarrow> string \<Rightarrow> real \<Rightarrow> alert option \<times> store" where
  "notify_if_strong_fluctuations_f64 s data ticker threshold =
     (case data of
        None \<Rightarrow> (None, say NoDataForFluctuations s)
      | Some r \<Rightarrow>
          (case getitem (frames s r) ''Close'' of
             Inl e \<Rightarrow> (None, say (FluctuationError e) s)
           | Inr close_prices \<Rightarrow>
               (let min_price = series_min close_prices;
                    max_price = series_max close_prices;
                    price_range_percent = range_percent_f64 close_prices
                in if fgt price_range_percent (Num threshold) then
                     (Some \<lparr>alert_ticker = ticker,
                            alert_min_price = min_price,
                            alert_max_price = max_price,
                            alert_fluctuation_percent = round2_f64 price_range_percent\<rparr>,
                      say (FluctuationPercentLine price_range_percent)
                        (say (PriceRangeLine min_price max_price)
                           (say (FluctuationWarning ticker) s)))
                   else (None, s))))"

section \<open>Notions used in the statements\<close>

text \<open>
  The observations of a window and their sum; the window of row \<open>i\<close>; the mean of the
  trailing \<open>w\<close> cells ending at row \<open>t\<close> over exact numbers; frames and stores
  for concrete runs, in which reference 0 denotes the frame.
\<close>

definition wcnt :: "fval list \<Rightarrow> nat" where
  "wcnt xs = length (filter is_num xs)"

definition wsum :: "fval list \<Rightarrow> real" where
  "wsum xs = sum_list (map num_of xs)"

definition window :: "nat \<Rightarrow> fval list \<Rightarrow> nat \<Rightarrow> fval list" where
  "window w vals i = slice vals (i + 1 - w) (i + 1)"

definition example_frame :: frame where
  "example_frame =
     \<lparr>index = [0, 1, 2, 3, 4, 5, 6],
      columns = [(''Close'', map Num [100, 102, 101, 105, 103, 108, 107])]\<rparr>"

definition store_of :: "frame \<Rightarrow> store" where
  "store_of df = \<lparr>frames = (\<lambda>r. df), fresh = 1, out = []\<rparr>"



definition close_frame :: "fval list \<Rightarrow> frame" where
  "close_frame c = \<lparr>index = map int [0..<length c], columns = [(''Close'', c)]\<rparr>"

definition nan_stats :: stats where
  "nan_stats = \<lparr>std_deviation = NaN, variance = NaN, min_price = NaN, max_price = NaN,
                price_range = NaN, coefficient_variation = NaN\<rparr>"

text \<open>
  The series that \<open>calculate_rsi\<close> and \<open>calculate_macd\<close> return when they
  succeed, and the four columns that \<open>add_technical_indicators\<close> adds with its
  default periods.
\<close>

definition rsi_series :: "fval list \<Rightarrow> int \<Rightarrow> fval list" where
  "rsi_series close periods =
     map (\<lambda>(g, l). rsi_value g l)
       (zip (roll_mean (nat periods) (prep_values (gain_of close)))
            (roll_mean (nat periods) (prep_values (loss_of close))))"

definition ewm_series :: "int \<Rightarrow> fval list \<Rightarrow> fval list" where
  "ewm_series n xs =
     (case prep_values xs of
        [] \<Rightarrow> []
      | v # vs \<Rightarrow> snd (fold (ewm_step (1 / (1 + (real_of_int n - 1) / 2))) vs ((v, 1), [v])))"

definition macd_series :: "fval list \<Rightarrow> int \<Rightarrow> int \<Rightarrow> int \<Rightarrow> macd_lines" where
  "macd_series close fast_period slow_period signal_period =
     (let macd = series_sub (ewm_series fast_period close) (ewm_series slow_period close);
          sig = ewm_series signal_period macd
      in \<lparr>macd_line = macd, signal_line = sig, histogram = series_sub macd sig\<rparr>)"

definition indicator_columns :: "fval list \<Rightarrow> (string \<times> fval list) list" where
  "indicator_columns close =
     [(''RSI'', rsi_series close 14),
      (''MACD'', macd_line (macd_series close 12 26 9)),
      (''Signal_Line'', signal_line (macd_series close 12 26 9)),
      (''Histogram'', histogram (macd_series close 12 26 9))]"

definition rsi_clash_frame :: frame where
  "rsi_clash_frame =
     \<lparr>index = [0, 1, 2],
      columns = [(''Close'', [Num 1, Num 2, Num 3]), (''RSI'', [Num 50, Num 50, Num 50])]\<rparr>"

text \<open>
  The range percent as line 100 computes it in binary64 from the minimum and the maximum;
  ten bars rising from 100 to 200.
\<close>

definition computed_percent :: "real \<Rightarrow> real \<Rightarrow> fval" where
  "computed_percent lo hi = dmul (ddiv (dsub (Num hi) (Num lo)) (Num lo)) (Num 100)"

definition rising_closes :: "real list" where
  "rising_closes = [100, 110, 120, 130, 140, 150, 160, 170, 180, 200]"

section \<open>The rolling pass and its window\<close>

lemma wcnt_append: "wcnt (xs @ ys) = wcnt xs + wcnt ys"
  by (simp add: wcnt_def)

lemma wsum_append: "wsum (xs @ ys) = wsum xs + wsum ys"
  by (simp add: wsum_def)


lemma fold_add_mean: "fold add_mean xs (n, t) = (n + wcnt xs, t + wsum xs)"
proof (induction xs arbitrary: n t)
  case Nil
  show ?case by (simp add: wcnt_def wsum_def)
next
  case (Cons x xs)
  show ?case
    by (cases x) (simp_all add: Cons.IH wcnt_def wsum_def is_num_def num_of_def)
qed

lemma fold_remove_mean: "fold remove_mean xs (n, t) = (n - wcnt xs, t - wsum xs)"
proof (induction xs arbitrary: n t)
  case Nil
  show ?case by (simp add: wcnt_def wsum_def)
next
  case (Cons x xs)
  show ?case
    by (cases x) (simp_all add: Cons.IH wcnt_def wsum_def is_num_def num_of_def)
qed

lemma slice_append: "a \<le> b \<Longrightarrow> b \<le> c \<Longrightarrow> slice xs a b @ slice xs b c = slice xs a c"
proof -
  assume ab: "a \<le> b" and bc: "b \<le> c"
  have "drop b xs = drop (b - a) (drop a xs)" using ab by simp
  then have "slice xs a b @ slice xs b c
             = take (b - a) (drop a xs) @ take (c - b) (drop (b - a) (drop a xs))"
    by (simp add: slice_def)
  also have "\<dots> = take ((b - a) + (c - b)) (drop a xs)"
    by (simp only: take_add)
  also have "(b - a) + (c - b) = c - a" using ab bc by simp
  finally show ?thesis by (simp add: slice_def)
qed

lemma roll_step_window:
  assumes "i = 0 \<or> fst acc = (wcnt (window w vals (i - 1)), wsum (window w vals (i - 1)))"
  shows "roll_step w vals i acc =
           ((wcnt (window w vals i), wsum (window w vals i)),
            snd acc @ [calc_mean w (wcnt (window w vals i), wsum (window w vals i))])"
proof (cases "i = 0 \<or> i \<le> i + 1 - w")
  case True
  then show ?thesis
    by (simp add: roll_step_def Let_def fold_add_mean window_def)
next
  case False
  then have i: "0 < i" and w: "2 \<le> w" by auto
  from i assms have acc: "fst acc = (wcnt (window w vals (i - 1)), wsum (window w vals (i - 1)))"
    by simp
  have prev: "window w vals (i - 1) = slice vals (i - w) (i + 1 - w) @ slice vals (i + 1 - w) i"
    using i w by (simp add: window_def slice_append)
  have cur: "window w vals i = slice vals (i + 1 - w) i @ slice vals i (i + 1)"
    using i w by (simp add: window_def slice_append)
  have c1: "wcnt (window w vals (i - 1)) - wcnt (slice vals (i - w) (i + 1 - w))
            = wcnt (slice vals (i + 1 - w) i)"
    using prev by (simp add: wcnt_append)
  have c2: "wsum (window w vals (i - 1)) - wsum (slice vals (i - w) (i + 1 - w))
            = wsum (slice vals (i + 1 - w) i)"
    using prev by (simp add: wsum_append)
  have "fold add_mean (slice vals i (i + 1))
          (fold remove_mean (slice vals (i - w) (i + 1 - w)) (fst acc))
        = (wcnt (window w vals i), wsum (window w vals i))"
    using c1 c2 cur by (simp add: acc fold_remove_mean fold_add_mean wcnt_append wsum_append)
  with False show ?thesis
    by (simp add: roll_step_def Let_def)
qed

lemma roll_fold:
  "fold (roll_step w vals) [0..<n] ((0, 0), []) =
     ((if n = 0 then (0, 0) else (wcnt (window w vals (n - 1)), wsum (window w vals (n - 1)))),
      map (\<lambda>i. calc_mean w (wcnt (window w vals i), wsum (window w vals i))) [0..<n])"
proof (induction n)
  case 0
  show ?case by simp
next
  case (Suc n)
  have "fold (roll_step w vals) [0..<Suc n] ((0, 0), [])
        = roll_step w vals n (fold (roll_step w vals) [0..<n] ((0, 0), []))"
    by simp
  also have "\<dots> = ((wcnt (window w vals n), wsum (window w vals n)),
       map (\<lambda>i. calc_mean w (wcnt (window w vals i), wsum (window w vals i))) [0..<n]
         @ [calc_mean w (wcnt (window w vals n), wsum (window w vals n))])"
    by (subst roll_step_window) (auto simp: Suc.IH)
  finally show ?case by simp
qed

lemma roll_mean_eq:
  "roll_mean w vals =
     map (\<lambda>i. calc_mean w (wcnt (window w vals i), wsum (window w vals i))) [0..<length vals]"
  by (simp add: roll_mean_def roll_fold)





lemma slice_empty: "slice xs a a = []"
  by (simp add: slice_def)








lemma length_prep_values: "length (prep_values xs) = length xs"
  by (simp add: prep_values_def)




lemma map_of_set_col_same: "map_of (set_col label c cs) label = Some c"
  by (induction cs) auto


lemma getitem_setitem_same: "getitem (setitem df label c) label = Inr c"
  by (simp add: getitem_def setitem_def map_of_set_col_same)

lemma add_moving_average_ok:
  assumes "getitem (frames s r) ''Close'' = Inr close" and "0 \<le> w"
  shows "add_moving_average s (Some r) w =
           (Some r, put_frame r (setitem (frames s r) ''Moving_Average''
                                   (roll_mean (nat w) (prep_values close))) s)"
  using assms by (simp add: add_moving_average_def rolling_mean_def)

lemma example_close: "getitem (frames (store_of example_frame) 0) ''Close''
    = Inr (map Num [100, 102, 101, 105, 103, 108, 107])"
  by (simp add: getitem_def store_of_def example_frame_def)

lemma roll_mean_zero: "roll_mean 0 vals = replicate (length vals) NaN"
proof -
  have "\<And>i. calc_mean 0 (wcnt (window 0 vals i), wsum (window 0 vals i)) = NaN"
    by (simp add: window_def slice_empty wcnt_def calc_mean_def)
  then show ?thesis
    by (simp add: roll_mean_eq map_replicate_const)
qed

section \<open>Moving average: a window that is not positive\<close>

text \<open>
  Claim C8, as the code has it. The transform checks nothing itself. A negative window
  is refused by the rolling-window constructor: the transform catches the error, prints
  a message and returns the frame it was given, with no column added. A window of 0 is
  accepted: the column \<open>Moving_Average\<close> is written with every cell undefined, and
  nothing is printed.
\<close>

theorem moving_average_nonpositive_window:
  assumes "getitem (frames s r) ''Close'' = Inr close"
  shows "(w < 0 \<longrightarrow>
            add_moving_average s (Some r) w = (Some r, say (MovingAverageError ValueError) s))
       \<and> add_moving_average s (Some r) 0 =
            (Some r, put_frame r (setitem (frames s r) ''Moving_Average''
                                    (replicate (length close) NaN)) s)"
  using assms
  by (simp add: add_moving_average_def rolling_mean_def roll_mean_zero length_prep_values)

text \<open>The seven bars with the windows -1 and 0.\<close>

theorem moving_average_nonpositive_window_witness:
  "add_moving_average (store_of example_frame) (Some 0) (- 1) =
     (Some 0, say (MovingAverageError ValueError) (store_of example_frame))
   \<and> add_moving_average (store_of example_frame) (Some 0) 0 =
     (Some 0, put_frame 0 (setitem (frames (store_of example_frame) 0) ''Moving_Average''
                             [NaN, NaN, NaN, NaN, NaN, NaN, NaN]) (store_of example_frame))"
  using moving_average_nonpositive_window [OF example_close, of "- 1"] by simp

text \<open>
  Claim C8 as stated fails for the window 0: the seven bars get a column of seven
  undefined cells and no failure is signalled.
\<close>

theorem moving_average_zero_window_counterexample:
  "getitem (frames (snd (add_moving_average (store_of example_frame) (Some 0) 0)) 0)
     ''Moving_Average'' = Inr [NaN, NaN, NaN, NaN, NaN, NaN, NaN]
   \<and> out (snd (add_moving_average (store_of example_frame) (Some 0) 0)) = []"
proof -
  have "add_moving_average (store_of example_frame) (Some 0) 0 =
     (Some 0, put_frame 0 (setitem (frames (store_of example_frame) 0) ''Moving_Average''
                             [NaN, NaN, NaN, NaN, NaN, NaN, NaN]) (store_of example_frame))"
    using add_moving_average_ok [OF example_close, of 0]
    by (simp add: roll_mean_zero length_prep_values)
  then show ?thesis
    by (simp add: put_frame_def getitem_setitem_same store_of_def eval_nat_numeral)
qed

section \<open>What the transforms do to the frame they are given\<close>



lemma frames_say: "frames (say m s) = frames s"
  by (simp add: say_def)












section \<open>RSI stays between 0 and 100\<close>














lemma getitem_has_column: "getitem df label = Inr c \<Longrightarrow> has_column df label"
  by (auto simp: getitem_def has_column_def split: option.splits dest: map_of_SomeD intro: rev_image_eqI)






section \<open>Minimum and maximum of a series of numbers\<close>

lemma close_frame_close: "getitem (frames (store_of (close_frame c)) r) ''Close'' = Inr c"
  by (simp add: getitem_def store_of_def close_frame_def)

lemma drop_nan_Num: "drop_nan (map Num cs) = map Num cs"
  by (induction cs) (simp_all add: drop_nan_def)

lemma fold_fmin_Num: "fold fmin (map Num ys) (Num y) = Num (fold min ys y)"
proof (induction ys arbitrary: y)
  case Nil
  show ?case by simp
next
  case (Cons z ys)
  have "fmin (Num z) (Num y) = Num (min z y)"
    by (simp add: fmin_def min_def)
  then show ?case by (simp add: Cons.IH)
qed

lemma fold_fmax_Num: "fold fmax (map Num ys) (Num y) = Num (fold max ys y)"
proof (induction ys arbitrary: y)
  case Nil
  show ?case by simp
next
  case (Cons z ys)
  have "fmax (Num z) (Num y) = Num (max z y)"
    by (simp add: fmax_def max_def)
  then show ?case by (simp add: Cons.IH)
qed

lemma series_min_Num: "cs \<noteq> [] \<Longrightarrow> series_min (map Num cs) = Num (Min (set cs))"
proof (cases cs)
  case Nil
  assume "cs \<noteq> []"
  with Nil show ?thesis by simp
next
  case (Cons c rest)
  have "series_min (map Num (c # rest)) = Num (fold min rest c)"
    by (simp add: series_min_def drop_nan_Num [of "c # rest", simplified] fold_fmin_Num)
  also have "fold min rest c = Min (set (c # rest))"
    by (simp only: Min.set_eq_fold)
  finally show ?thesis using Cons by simp
qed

lemma series_max_Num: "cs \<noteq> [] \<Longrightarrow> series_max (map Num cs) = Num (Max (set cs))"
proof (cases cs)
  case Nil
  assume "cs \<noteq> []"
  with Nil show ?thesis by simp
next
  case (Cons c rest)
  have "series_max (map Num (c # rest)) = Num (fold max rest c)"
    by (simp add: series_max_def drop_nan_Num [of "c # rest", simplified] fold_fmax_Num)
  also have "fold max rest c = Max (set (c # rest))"
    by (simp only: Max.set_eq_fold)
  finally show ?thesis using Cons by simp
qed

section \<open>Fluctuation alert: a minimum of zero\<close>

text \<open>
  Claim C6, as the code has it. Nothing guards the division by the minimum. With a
  minimum close of exactly 0 and a positive maximum the range percent is plus infinity,
  which is above every threshold: an alert is returned whose fluctuation percent is
  infinite. With minimum and maximum both 0 the range percent is NaN, the comparison
  with the threshold is false and no alert is returned.
\<close>

theorem fluctuation_zero_minimum:
  assumes close: "getitem (frames s r) ''Close'' = Inr (map Num cs)"
    and ne: "cs \<noteq> []"
    and zero: "Min (set cs) = 0"
  shows "(0 < Max (set cs) \<longrightarrow>
            range_percent (map Num cs) = PInf
          \<and> notify_if_strong_fluctuations s (Some r) ticker threshold =
              (Some \<lparr>alert_ticker = ticker, alert_min_price = Num 0,
                      alert_max_price = Num (Max (set cs)),
                      alert_fluctuation_percent = PInf\<rparr>,
               say (FluctuationPercentLine PInf)
                 (say (PriceRangeLine (Num 0) (Num (Max (set cs))))
                    (say (FluctuationWarning ticker) s))))
       \<and> (Max (set cs) = 0 \<longrightarrow>
            range_percent (map Num cs) = NaN
          \<and> notify_if_strong_fluctuations s (Some r) ticker threshold = (None, s))"
proof -
  have rp: "range_percent (map Num cs) =
          fmul (fdiv (fsub (Num (Max (set cs))) (Num 0)) (Num 0)) (Num 100)"
    using zero
    by (simp only: range_percent_def Let_def series_min_Num [OF ne] series_max_Num [OF ne])
  have pos: "0 < Max (set cs) \<Longrightarrow> range_percent (map Num cs) = PInf"
    unfolding rp by (simp add: fsub_def)
  have flat: "Max (set cs) = 0 \<Longrightarrow> range_percent (map Num cs) = NaN"
    unfolding rp by (simp add: fsub_def)
  show ?thesis
    using pos flat zero
    by (simp add: notify_if_strong_fluctuations_def close Let_def
          series_min_Num [OF ne] series_max_Num [OF ne])
qed

lemma min_max_zero_one: "Min (set [0, 1 :: real]) = 0" "Max (set [0, 1 :: real]) = 1"
  by simp_all

text \<open>The closes 0 and 1 with threshold 5.\<close>

theorem fluctuation_zero_minimum_witness:
  "range_percent (map Num [0, 1]) = PInf
   \<and> notify_if_strong_fluctuations (store_of (close_frame (map Num [0, 1]))) (Some 0) ''T'' 5 =
       (Some \<lparr>alert_ticker = ''T'', alert_min_price = Num 0, alert_max_price = Num 1,
               alert_fluctuation_percent = PInf\<rparr>,
        say (FluctuationPercentLine PInf)
          (say (PriceRangeLine (Num 0) (Num 1))
             (say (FluctuationWarning ''T'') (store_of (close_frame (map Num [0, 1]))))))"
proof -
  have ne: "[0, 1 :: real] \<noteq> []" by simp
  show ?thesis
    using fluctuation_zero_minimum [OF close_frame_close ne min_max_zero_one(1), of 0 "''T''" 5]
    by (simp add: min_max_zero_one)
qed

text \<open>
  Claim C6 as stated fails: for the closes 0 and 1 an alert is produced and the range
  percent it reports is infinite.
\<close>

theorem fluctuation_zero_minimum_counterexample:
  "fst (notify_if_strong_fluctuations (store_of (close_frame [Num 0, Num 1])) (Some 0) ''T'' 5)
     = Some \<lparr>alert_ticker = ''T'', alert_min_price = Num 0, alert_max_price = Num 1,
             alert_fluctuation_percent = PInf\<rparr>"
  by (simp add: notify_if_strong_fluctuations_def close_frame_close Let_def range_percent_def
        series_min_def series_max_def drop_nan_def fmin_def fmax_def fsub_def)

section \<open>Dispersion statistics: a mean of zero, an empty series\<close>

lemma fdiv_zero_not_num: "\<not> is_num (fmul (fdiv x (Num 0)) (Num 100))"
  by (cases x) (simp_all add: is_num_def)

lemma stats_of_empty: "stats_of [] = nan_stats"
  by (simp add: stats_of_def nan_stats_def series_std_def series_var_def series_min_def
        series_max_def series_mean_def drop_nan_def fsub_def)

text \<open>
  Claim C5, as the code has it. Whenever the column exists the computation returns the
  record of six statistics and prints it; nothing is guarded. When the mean is exactly 0
  the coefficient of variation is not a number (an infinity, or NaN when the standard
  deviation is 0 or undefined). For a column with no row all six statistics are NaN.
\<close>

theorem dispersion_never_guards:
  assumes col: "getitem (frames s r) column = Inr c"
  shows "calculate_standard_deviation s (Some r) column =
           (Some (stats_of c), say (StatsReport (stats_of c)) s)
       \<and> (series_mean c = Num 0 \<longrightarrow> \<not> is_num (coefficient_variation (stats_of c)))
       \<and> (c = [] \<longrightarrow> stats_of c = nan_stats)"
  using col
  by (simp add: calculate_standard_deviation_def stats_of_empty)
     (simp add: stats_of_def fdiv_zero_not_num)

lemma stats_minus_one_one:
  "stats_of [Num (- 1), Num 1] =
     \<lparr>std_deviation = Num (sqrt 2), variance = Num 2, min_price = Num (- 1), max_price = Num 1,
      price_range = Num 2, coefficient_variation = PInf\<rparr>"
  by (simp add: stats_of_def series_std_def series_var_def series_min_def series_max_def
        series_mean_def drop_nan_def fsub_def fsum_def fmin_def fmax_def Let_def)

text \<open>The column -1, 1 has mean 0.\<close>

theorem dispersion_never_guards_witness:
  "calculate_standard_deviation (store_of (close_frame [Num (- 1), Num 1])) (Some 0) ''Close'' =
     (Some (stats_of [Num (- 1), Num 1]),
      say (StatsReport (stats_of [Num (- 1), Num 1])) (store_of (close_frame [Num (- 1), Num 1])))
   \<and> \<not> is_num (coefficient_variation (stats_of [Num (- 1), Num 1]))"
proof -
  have m: "series_mean [Num (- 1), Num 1] = Num 0"
    by (simp add: series_mean_def drop_nan_def fsum_def)
  show ?thesis
    using dispersion_never_guards [OF close_frame_close, of "[Num (- 1), Num 1]" 0] m
    by simp
qed

text \<open>
  Claim C5 as stated fails: for the column -1, 1 (mean 0) a record is returned whose
  coefficient of variation is plus infinity; for 0, 0 it is NaN; for the empty column a
  record of NaN is returned.
\<close>

theorem dispersion_zero_mean_counterexample:
  "fst (calculate_standard_deviation (store_of (close_frame [Num (- 1), Num 1])) (Some 0) ''Close'')
     = Some \<lparr>std_deviation = Num (sqrt 2), variance = Num 2, min_price = Num (- 1),
             max_price = Num 1, price_range = Num 2, coefficient_variation = PInf\<rparr>
   \<and> fst (calculate_standard_deviation (store_of (close_frame [Num 0, Num 0])) (Some 0) ''Close'')
     = Some \<lparr>std_deviation = Num 0, variance = Num 0, min_price = Num 0,
             max_price = Num 0, price_range = Num 0, coefficient_variation = NaN\<rparr>
   \<and> fst (calculate_standard_deviation (store_of (close_frame [])) (Some 0) ''Close'')
     = Some nan_stats"
proof -
  have a: "stats_of [Num 0, Num 0] =
     \<lparr>std_deviation = Num 0, variance = Num 0, min_price = Num 0,
             max_price = Num 0, price_range = Num 0, coefficient_variation = NaN\<rparr>"
    by (simp add: stats_of_def series_std_def series_var_def series_min_def series_max_def
        series_mean_def drop_nan_def fsub_def fsum_def fmin_def fmax_def Let_def)
  show ?thesis
    by (simp add: calculate_standard_deviation_def close_frame_close stats_minus_one_one a
          stats_of_empty)
qed

section \<open>Trend and volatility of a single bar\<close>

text \<open>
  Claim C9, as the code has it. For a series of one bar with close c the analysis
  returns a record and prints it: the mean daily return, the daily volatility and the
  annualized volatility are undefined (NaN), the start and the end price are c, and the
  total return percent is 0 when c is not 0. When c is 0 the unguarded division 0 / 0
  makes the total return percent NaN.
\<close>

theorem single_bar_analysis:
  assumes close: "getitem (frames s r) ''Close'' = Inr [Num c]"
  shows "\<exists>a. advanced_price_analysis s (Some r) = (Some a, say (AnalysisReport a) s)
           \<and> mean_daily_return a = NaN
           \<and> daily_volatility a = NaN
           \<and> annualized_volatility a = NaN
           \<and> start_price a = Num c
           \<and> end_price a = Num c
           \<and> (c \<noteq> 0 \<longrightarrow> total_return_percent a = Num 0)
           \<and> (c = 0 \<longrightarrow> total_return_percent a = NaN)"
  using close
  by (simp add: advanced_price_analysis_def analysis_of_def pct_change_def shift_def
        iloc_first_def iloc_last_def series_mean_def series_std_def series_var_def
        drop_nan_def fsub_def Let_def)

text \<open>One bar closing at 50.\<close>

theorem single_bar_analysis_witness:
  "\<exists>a. advanced_price_analysis (store_of (close_frame [Num 50])) (Some 0)
          = (Some a, say (AnalysisReport a) (store_of (close_frame [Num 50])))
      \<and> mean_daily_return a = NaN \<and> daily_volatility a = NaN \<and> annualized_volatility a = NaN
      \<and> start_price a = Num 50 \<and> end_price a = Num 50 \<and> total_return_percent a = Num 0"
  using single_bar_analysis [OF close_frame_close, of 50 0] by simp

text \<open>
  Claim C9 as stated fails for one bar closing at 0: the total return percent is NaN,
  not 0.
\<close>

theorem single_bar_zero_close_counterexample:
  "map_option total_return_percent
     (fst (advanced_price_analysis (store_of (close_frame [Num 0])) (Some 0))) = Some NaN"
  by (simp add: advanced_price_analysis_def close_frame_close analysis_of_def pct_change_def
        shift_def iloc_first_def iloc_last_def fsub_def Let_def)

section \<open>Adding the indicators works on a copy\<close>

lemma calculate_rsi_ok:
  assumes close: "getitem (frames s r) ''Close'' = Inr close" and p: "0 \<le> periods"
  shows "calculate_rsi s (Some r) periods = (Some (rsi_series close periods), s)"
  using close p getitem_has_column [OF close]
  by (simp add: calculate_rsi_def rsi_of_close_def avg_gain_of_def avg_loss_of_def
        rolling_mean_def rsi_series_def)

lemma ewm_mean_ok: "1 \<le> n \<Longrightarrow> ewm_mean n xs = Inr (ewm_series n xs)"
  by (simp add: ewm_mean_def ewm_series_def Let_def)

lemma calculate_macd_ok:
  assumes close: "getitem (frames s r) ''Close'' = Inr close"
    and periods: "1 \<le> fast_period" "1 \<le> slow_period" "1 \<le> signal_period"
  shows "calculate_macd s (Some r) fast_period slow_period signal_period =
           (Some (macd_frame (index (frames s r))
                    (macd_series close fast_period slow_period signal_period)), s)"
  using close periods getitem_has_column [OF close]
  by (simp add: calculate_macd_def macd_of_close_def ewm_mean_ok macd_series_def Let_def)

lemma set_col_absent: "label \<notin> set (map fst cs) \<Longrightarrow> set_col label c cs = cs @ [(label, c)]"
  by (induction cs) auto

lemma add_technical_indicators_run:
  assumes close: "getitem (frames s r) ''Close'' = Inr close" and r: "r < fresh s"
  shows "add_technical_indicators s (Some r) True True =
           (Some (Suc (fresh s)),
            s\<lparr>frames := (frames s)
                 (fresh s := setitem (frames s r) ''RSI'' (rsi_series close 14),
                  Suc (fresh s) :=
                    concat_columns (setitem (frames s r) ''RSI'' (rsi_series close 14))
                      (macd_frame (index (frames s r)) (macd_series close 12 26 9))),
              fresh := Suc (Suc (fresh s))\<rparr>)"
proof -
  let ?a = "fresh s"
  let ?s1 = "s\<lparr>frames := (frames s)(?a := frames s r), fresh := Suc ?a\<rparr>"
  let ?copy = "setitem (frames s r) ''RSI'' (rsi_series close 14)"
  let ?s2 = "put_frame ?a ?copy ?s1"
  have ne: "r \<noteq> ?a" using r by simp
  have c1: "getitem (frames ?s1 r) ''Close'' = Inr close" using close ne by simp
  have rsi: "calculate_rsi ?s1 (Some r) 14 = (Some (rsi_series close 14), ?s1)"
    by (rule calculate_rsi_ok [OF c1]) simp
  have c2: "getitem (frames ?s2 r) ''Close'' = Inr close"
    using close ne by (simp add: put_frame_def)
  have i2: "index (frames ?s2 r) = index (frames s r)"
    using ne by (simp add: put_frame_def)
  have macd: "calculate_macd ?s2 (Some r) 12 26 9 =
                (Some (macd_frame (index (frames s r)) (macd_series close 12 26 9)), ?s2)"
    using calculate_macd_ok [OF c2, of 12 26 9] i2 by simp
  have f2: "frames ?s2 ?a = ?copy" by (simp add: put_frame_def)
  show ?thesis
    using rsi macd
    unfolding add_technical_indicators_def
    by (simp add: alloc_def put_frame_def Let_def)
qed

text \<open>
  Claim C10, as the code has it. For a frame of the store that has a \<open>Close\<close> column,
  the call with both flags set returns a new frame over the same index, prints nothing
  and leaves every frame that existed before, the input among them, as it was. When the
  input has no column \<open>RSI\<close>, the columns of the new frame are those of the input,
  unchanged and in order, followed by \<open>RSI\<close>, \<open>MACD\<close>, \<open>Signal_Line\<close> and
  \<open>Histogram\<close> as the two indicator functions return them. In every case the column
  \<open>RSI\<close> of the new frame is the computed one.
\<close>

theorem add_technical_indicators_copy:
  assumes close: "getitem (frames s r) ''Close'' = Inr close"
    and r: "r < fresh s"
  shows "\<exists>s'. add_technical_indicators s (Some r) True True = (Some (Suc (fresh s)), s')
           \<and> index (frames s' (Suc (fresh s))) = index (frames s r)
           \<and> (\<not> has_column (frames s r) ''RSI'' \<longrightarrow>
                columns (frames s' (Suc (fresh s))) = columns (frames s r) @ indicator_columns close)
           \<and> getitem (frames s' (Suc (fresh s))) ''RSI'' = Inr (rsi_series close 14)
           \<and> (\<forall>r'. r' < fresh s \<longrightarrow> frames s' r' = frames s r')
           \<and> out s' = out s
           \<and> calculate_rsi s (Some r) 14 = (Some (rsi_series close 14), s)
           \<and> calculate_macd s (Some r) 12 26 9 =
               (Some (macd_frame (index (frames s r)) (macd_series close 12 26 9)), s)"
proof -
  let ?copy = "setitem (frames s r) ''RSI'' (rsi_series close 14)"
  let ?joined = "concat_columns ?copy (macd_frame (index (frames s r)) (macd_series close 12 26 9))"
  let ?s' = "s\<lparr>frames := (frames s)(fresh s := ?copy, Suc (fresh s) := ?joined),
               fresh := Suc (Suc (fresh s))\<rparr>"
  have run: "add_technical_indicators s (Some r) True True = (Some (Suc (fresh s)), ?s')"
    by (rule add_technical_indicators_run [OF close r])
  have idx: "index (frames ?s' (Suc (fresh s))) = index (frames s r)"
    by (simp add: concat_columns_def setitem_def)
  have all: "\<not> has_column (frames s r) ''RSI'' \<longrightarrow>
               columns (frames ?s' (Suc (fresh s))) = columns (frames s r) @ indicator_columns close"
    by (simp add: concat_columns_def setitem_def has_column_def set_col_absent macd_frame_def
          indicator_columns_def)
  have new: "getitem (frames ?s' (Suc (fresh s))) ''RSI'' = Inr (rsi_series close 14)"
    by (simp add: getitem_def concat_columns_def setitem_def map_of_set_col_same)
  have old: "\<forall>r'. r' < fresh s \<longrightarrow> frames ?s' r' = frames s r'"
    by simp
  have quiet: "out ?s' = out s" by simp
  have rsi: "calculate_rsi s (Some r) 14 = (Some (rsi_series close 14), s)"
    by (rule calculate_rsi_ok [OF close]) simp
  have macd: "calculate_macd s (Some r) 12 26 9 =
               (Some (macd_frame (index (frames s r)) (macd_series close 12 26 9)), s)"
    by (rule calculate_macd_ok [OF close]) simp_all
  show ?thesis
    by (rule exI [where x = ?s']) (intro conjI run idx all new old quiet rsi macd)
qed

text \<open>The seven bars: the new frame has five columns, the input still one.\<close>

theorem add_technical_indicators_copy_witness:
  "\<exists>s'. add_technical_indicators (store_of example_frame) (Some 0) True True = (Some 2, s')
        \<and> index (frames s' 2) = [0, 1, 2, 3, 4, 5, 6]
        \<and> map fst (columns (frames s' 2)) = [''Close'', ''RSI'', ''MACD'', ''Signal_Line'', ''Histogram'']
        \<and> getitem (frames s' 2) ''Close'' = Inr (map Num [100, 102, 101, 105, 103, 108, 107])
        \<and> frames s' 0 = example_frame"
proof -
  let ?close = "map Num [100, 102, 101, 105, 103, 108, 107]"
  have norsi: "\<not> has_column (frames (store_of example_frame) 0) ''RSI''"
    by (simp add: has_column_def store_of_def example_frame_def)
  have r: "0 < fresh (store_of example_frame)" by (simp add: store_of_def)
  from add_technical_indicators_copy [OF example_close r]
  obtain s' where
    run: "add_technical_indicators (store_of example_frame) (Some 0) True True
            = (Some (Suc (fresh (store_of example_frame))), s')"
    and idx: "index (frames s' (Suc (fresh (store_of example_frame))))
                = index (frames (store_of example_frame) 0)"
    and cols0: "\<not> has_column (frames (store_of example_frame) 0) ''RSI'' \<longrightarrow>
                columns (frames s' (Suc (fresh (store_of example_frame))))
                = columns (frames (store_of example_frame) 0) @ indicator_columns ?close"
    and old: "\<forall>r'. r' < fresh (store_of example_frame) \<longrightarrow>
                frames s' r' = frames (store_of example_frame) r'"
    by blast
  from cols0 norsi have cols: "columns (frames s' (Suc (fresh (store_of example_frame))))
                = columns (frames (store_of example_frame) 0) @ indicator_columns ?close"
    by blast
  have two: "Suc (fresh (store_of example_frame)) = 2" by (simp add: store_of_def)
  have a: "add_technical_indicators (store_of example_frame) (Some 0) True True = (Some 2, s')"
    using run unfolding two .
  have b: "index (frames s' 2) = [0, 1, 2, 3, 4, 5, 6]"
    unfolding idx [unfolded two] by (simp add: store_of_def example_frame_def)
  have c: "columns (frames s' 2) = (''Close'', ?close) # indicator_columns ?close"
    unfolding cols [unfolded two] by (simp add: store_of_def example_frame_def)
  have d: "map fst (columns (frames s' 2)) = [''Close'', ''RSI'', ''MACD'', ''Signal_Line'', ''Histogram'']"
    unfolding c by (simp add: indicator_columns_def)
  have e: "getitem (frames s' 2) ''Close'' = Inr ?close"
    unfolding getitem_def c by simp
  have f: "frames s' 0 = example_frame"
    using old r by (simp add: store_of_def)
  show ?thesis
    by (rule exI [where x = s']) (intro conjI a b d e f)
qed

lemma rsi_series_short: "rsi_series [Num 1, Num 2, Num 3] 14 = [NaN, NaN, NaN]"
  by (simp add: rsi_series_def roll_mean_def roll_step_def prep_values_def gain_of_def loss_of_def
        diff_def is_num_def fsub_def slice_def calc_mean_def upt_conv_Cons rsi_value_def)

text \<open>
  Claim C10 as stated fails for an input that already has a column \<open>RSI\<close>: in the
  returned frame that column holds the computed values, not the input's.
\<close>

theorem add_technical_indicators_overwrites_rsi_counterexample:
  "fst (add_technical_indicators (store_of rsi_clash_frame) (Some 0) True True) = Some 2
   \<and> getitem (frames (snd (add_technical_indicators (store_of rsi_clash_frame) (Some 0) True True)) 2)
        ''RSI'' = Inr [NaN, NaN, NaN]
   \<and> getitem (frames (store_of rsi_clash_frame) 0) ''RSI'' = Inr [Num 50, Num 50, Num 50]"
proof -
  have close: "getitem (frames (store_of rsi_clash_frame) 0) ''Close'' = Inr [Num 1, Num 2, Num 3]"
    by (simp add: getitem_def store_of_def rsi_clash_frame_def)
  have r: "0 < fresh (store_of rsi_clash_frame)" by (simp add: store_of_def)
  show ?thesis
    using add_technical_indicators_run [OF close r]
    by (simp add: store_of_def rsi_clash_frame_def getitem_def setitem_def concat_columns_def
          rsi_series_short eval_nat_numeral)
qed

section \<open>Fluctuation alert: positive prices\<close>

lemma pow2_powr: "pow2 k = 2 powr (of_int k)"
  by (simp add: pow2_def powr_int)

lemma pow2_pos: "0 < pow2 k"
  by (simp add: pow2_def)

lemma floor_log2: 
  assumes "pow2 e \<le> \<bar>x\<bar>" and "\<bar>x\<bar> < pow2 (e + 1)"
  shows "\<lfloor>log 2 \<bar>x\<bar>\<rfloor> = e"
proof -
  have "0 < \<bar>x\<bar>" using assms(1) pow2_pos [of e] by linarith
  then show ?thesis
    using assms by (simp add: floor_log_eq_powr_iff pow2_powr)
qed

lemma fl_normal:
  assumes "pow2 e \<le> \<bar>x\<bar>" and "\<bar>x\<bar> < pow2 (e + 1)" and "- 1022 \<le> e"
  shows "fl x =
           (let q = pow2 (e - 52); y = of_int (round_half_even (x / q)) * q
            in if pow2 1024 \<le> \<bar>y\<bar> then (if 0 < x then PInf else NInf) else Num y)"
proof -
  have "x \<noteq> 0" using assms(1) pow2_pos [of e] by auto
  then show ?thesis
    using floor_log2 [OF assms(1,2)] assms(3) by (simp add: fl_def Let_def max_def)
qed

lemma range_percent_f64_Num:
  assumes "cs \<noteq> []"
  shows "range_percent_f64 (map Num cs) = computed_percent (Min (set cs)) (Max (set cs))"
  by (simp only: range_percent_f64_def Let_def computed_percent_def
        series_min_Num [OF assms] series_max_Num [OF assms])

lemma fl_eval:
  assumes "pow2 e \<le> \<bar>x\<bar>" and "\<bar>x\<bar> < pow2 (e + 1)" and "- 1022 \<le> e"
    and "of_int (round_half_even (x / pow2 (e - 52))) * pow2 (e - 52) = y"
    and "\<bar>y\<bar> < pow2 1024"
  shows "fl x = Num y"
  using fl_normal [OF assms(1,2,3)] assms(4,5) by (simp add: Let_def)

lemma round_half_even_near: "\<bar>y - of_int (round_half_even y)\<bar> \<le> 1 / 2"
proof -
  have "of_int \<lfloor>y\<rfloor> \<le> y" "y < of_int \<lfloor>y\<rfloor> + 1" by linarith+
  then show ?thesis
    by (auto simp: round_half_even_def Let_def abs_le_iff)
qed

lemma pow2_add: "pow2 (a + b) = pow2 a * pow2 b"
  by (simp add: pow2_powr powr_add)

text \<open>
  From \<open>2 ^ - 1022\<close> on, a rounded result is within one part in \<open>2 ^ 53\<close> of the
  exact one.
\<close>

lemma fl_relative_error:
  assumes normal: "pow2 (- 1022) \<le> \<bar>x\<bar>" and res: "fl x = Num y"
  shows "\<bar>y - x\<bar> \<le> \<bar>x\<bar> / 2 ^ 53"
proof -
  define e where "e = \<lfloor>log 2 \<bar>x\<bar>\<rfloor>"
  define q where "q = pow2 (e - 52)"
  have x0: "0 < \<bar>x\<bar>" using normal pow2_pos [of "- 1022"] by linarith
  then have xn: "x \<noteq> 0" by auto
  have bounds: "pow2 e \<le> \<bar>x\<bar>" "\<bar>x\<bar> < pow2 (e + 1)"
    using x0 floor_log_eq_powr_iff [of "\<bar>x\<bar>" 2 e] by (simp_all add: e_def pow2_powr)
  have "pow2 (- 1022) < pow2 (e + 1)" using normal bounds(2) by linarith
  then have "- 1022 < e + 1" by (simp add: pow2_powr)
  then have e: "- 1022 \<le> e" by simp
  have q0: "0 < q" by (simp add: q_def pow2_pos)
  from res have y: "y = of_int (round_half_even (x / q)) * q"
    using xn e by (simp add: fl_def Let_def max_def e_def [symmetric] q_def [symmetric]
                      split: if_splits)
  have "\<bar>x / q - of_int (round_half_even (x / q))\<bar> \<le> 1 / 2"
    by (rule round_half_even_near)
  then have "\<bar>x / q - of_int (round_half_even (x / q))\<bar> * q \<le> 1 / 2 * q"
    using q0 by (intro mult_right_mono) simp_all
  moreover have "\<bar>x / q - of_int (round_half_even (x / q))\<bar> * q = \<bar>x - y\<bar>"
  proof -
    have "\<bar>x / q - of_int (round_half_even (x / q))\<bar> * q
            = \<bar>(x / q - of_int (round_half_even (x / q))) * q\<bar>"
      using q0 by (simp add: abs_mult)
    also have "(x / q - of_int (round_half_even (x / q))) * q = x - y"
      using q0 by (simp add: y algebra_simps)
    finally show ?thesis .
  qed
  ultimately have d: "\<bar>x - y\<bar> \<le> q / 2" by simp
  have "pow2 e = pow2 (e - 52) * pow2 52" using pow2_add [of "e - 52" 52] by simp
  then have "q * 2 ^ 52 \<le> \<bar>x\<bar>" using bounds(1) by (simp add: q_def pow2_def)
  then have "q / 2 \<le> \<bar>x\<bar> / 2 ^ 53" by (simp add: field_simps)
  with d show ?thesis by (simp add: abs_minus_commute)
qed

text \<open>
  Claim C7. On a non-empty series of close prices whose minimum is positive, with a label
  and a threshold: the check computes the range percent ((max - min) / min) * 100 in
  binary64. When that value is strictly above the threshold, the alert is returned with
  the label, the minimum, the maximum and the range percent rounded to two decimals, and
  its three lines are printed; otherwise no alert is returned and nothing is printed, no
  error message either.
\<close>

theorem fluctuation_alert_iff_above_threshold:
  assumes close: "getitem (frames s r) ''Close'' = Inr (map Num cs)"
    and ne: "cs \<noteq> []"
    and pos: "0 < Min (set cs)"
  shows "notify_if_strong_fluctuations_f64 s (Some r) ticker threshold =
           (if fgt (computed_percent (Min (set cs)) (Max (set cs))) (Num threshold)
            then (Some \<lparr>alert_ticker = ticker,
                        alert_min_price = Num (Min (set cs)),
                        alert_max_price = Num (Max (set cs)),
                        alert_fluctuation_percent =
                          round2_f64 (computed_percent (Min (set cs)) (Max (set cs)))\<rparr>,
                  say (FluctuationPercentLine (computed_percent (Min (set cs)) (Max (set cs))))
                    (say (PriceRangeLine (Num (Min (set cs))) (Num (Max (set cs))))
                       (say (FluctuationWarning ticker) s)))
            else (None, s))"
  by (simp add: notify_if_strong_fluctuations_f64_def close Let_def
        range_percent_f64_Num [OF ne] series_min_Num [OF ne] series_max_Num [OF ne])

lemma rising_min_max: "Min (set rising_closes) = 100" "Max (set rising_closes) = 200"
  by (simp_all add: rising_closes_def)

lemma sub_200_100: "dsub (Num 200) (Num 100) = Num 100"
  by simp (rule fl_eval [where e = 6], simp_all add: pow2_def round_half_even_def Let_def)

lemma div_100_100: "ddiv (Num 100) (Num 100) = Num 1"
  by simp (rule fl_eval [where e = 0], simp_all add: pow2_def round_half_even_def Let_def)

lemma mul_1_100: "dmul (Num 1) (Num 100) = Num 100"
  by simp (rule fl_eval [where e = 6], simp_all add: pow2_def round_half_even_def Let_def)

lemma mul_100_100: "dmul (Num 100) (Num 100) = Num 10000"
  by simp (rule fl_eval [where e = 13], simp_all add: pow2_def round_half_even_def Let_def)

lemma rint_10000: "rint (Num 10000) = Num 10000"
  by (simp add: round_half_even_def Let_def)

lemma div_10000_100: "ddiv (Num 10000) (Num 100) = Num 100"
  by simp (rule fl_eval [where e = 6], simp_all add: pow2_def round_half_even_def Let_def)

lemma percent_100_200: "computed_percent 100 200 = Num 100"
  by (simp only: computed_percent_def sub_200_100 div_100_100 mul_1_100)

lemma round2_100: "round2_f64 (Num 100) = Num 100"
  by (simp only: round2_f64_def mul_100_100 rint_10000 div_10000_100)

lemma sub_107_100: "dsub (Num 107) (Num 100) = Num 7"
  by simp (rule fl_eval [where e = 2], simp_all add: pow2_def round_half_even_def Let_def)

lemma div_7_100: "ddiv (Num 7) (Num 100) = Num (1261007895663739 / 2 ^ 54)"
  by simp (rule fl_eval [where e = "- 4"], simp_all add: pow2_def round_half_even_def Let_def)

lemma mul_007_100: "dmul (Num (1261007895663739 / 2 ^ 54)) (Num 100) = Num (7881299347898369 / 2 ^ 50)"
  by simp (rule fl_eval [where e = 2], simp_all add: pow2_def round_half_even_def Let_def)

lemma mul_7_100: "dmul (Num (7881299347898369 / 2 ^ 50)) (Num 100) = Num (6157265115545601 / 2 ^ 43)"
  by simp (rule fl_eval [where e = 9], simp_all add: pow2_def round_half_even_def Let_def)

lemma rint_700: "rint (Num (6157265115545601 / 2 ^ 43)) = Num 700"
  by (simp add: round_half_even_def Let_def)

lemma div_700_100: "ddiv (Num 700) (Num 100) = Num 7"
  by simp (rule fl_eval [where e = 2], simp_all add: pow2_def round_half_even_def Let_def)

lemma percent_100_107: "computed_percent 100 107 = Num (7881299347898369 / 2 ^ 50)"
  by (simp only: computed_percent_def sub_107_100 div_7_100 mul_007_100)

lemma round2_7: "round2_f64 (Num (7881299347898369 / 2 ^ 50)) = Num 7"
  by (simp only: round2_f64_def mul_7_100 rint_700 div_700_100)

lemma sub_183_160: "dsub (Num 183) (Num 160) = Num 23"
  by simp (rule fl_eval [where e = 4], simp_all add: pow2_def round_half_even_def Let_def)

lemma div_23_160: "ddiv (Num 23) (Num 160) = Num (2589569785738035 / 2 ^ 54)"
  by simp (rule fl_eval [where e = "- 3"], simp_all add: pow2_def round_half_even_def Let_def)

lemma mul_014_100: "dmul (Num (2589569785738035 / 2 ^ 54)) (Num 100) = Num (8092405580431359 / 2 ^ 49)"
  by simp (rule fl_eval [where e = 3], simp_all add: pow2_def round_half_even_def Let_def)

lemma mul_14_100: "dmul (Num (8092405580431359 / 2 ^ 49)) (Num 100) = Num (6322191859711999 / 2 ^ 42)"
  by simp (rule fl_eval [where e = 10], simp_all add: pow2_def round_half_even_def Let_def)

lemma rint_1437: "rint (Num (6322191859711999 / 2 ^ 42)) = Num 1437"
  by (simp add: round_half_even_def Let_def)

lemma div_1437_100: "ddiv (Num 1437) (Num 100) = Num (8089590830664253 / 2 ^ 49)"
  by simp (rule fl_eval [where e = 3], simp_all add: pow2_def round_half_even_def Let_def)

lemma percent_160_183: "computed_percent 160 183 = Num (8092405580431359 / 2 ^ 49)"
  by (simp only: computed_percent_def sub_183_160 div_23_160 mul_014_100)

lemma round2_14_37: "round2_f64 (Num (8092405580431359 / 2 ^ 49)) = Num (8089590830664253 / 2 ^ 49)"
  by (simp only: round2_f64_def mul_14_100 rint_1437 div_1437_100)

lemma min_max_pair: "a \<le> b \<Longrightarrow> Min (set [a, b :: real]) = a \<and> Max (set [a, b]) = b"
  by (simp add: min_def max_def)

text \<open>
  Ten bars rising from 100 to 200: with threshold 5 an alert with range percent 100,
  minimum 100 and maximum 200; with threshold 100 no alert. The closes 100 and 107 with
  threshold 7: the computed range percent is 7.000000000000001, above 7, and the alert
  reports 7.0. The closes 160 and 183: the computed 14.374999999999998 is reported as
  14.37, the double 8089590830664253 / 2 ^ 49.
\<close>

theorem fluctuation_alert_iff_above_threshold_witness:
  "notify_if_strong_fluctuations_f64 (store_of (close_frame (map Num rising_closes))) (Some 0) ''T'' 5
     = (Some \<lparr>alert_ticker = ''T'', alert_min_price = Num 100, alert_max_price = Num 200,
              alert_fluctuation_percent = Num 100\<rparr>,
        say (FluctuationPercentLine (Num 100))
          (say (PriceRangeLine (Num 100) (Num 200))
             (say (FluctuationWarning ''T'') (store_of (close_frame (map Num rising_closes))))))
   \<and> notify_if_strong_fluctuations_f64 (store_of (close_frame (map Num rising_closes))) (Some 0) ''T'' 100
     = (None, store_of (close_frame (map Num rising_closes)))
   \<and> fst (notify_if_strong_fluctuations_f64 (store_of (close_frame (map Num [100, 107]))) (Some 0) ''T'' 7)
     = Some \<lparr>alert_ticker = ''T'', alert_min_price = Num 100, alert_max_price = Num 107,
             alert_fluctuation_percent = Num 7\<rparr>
   \<and> fst (notify_if_strong_fluctuations_f64 (store_of (close_frame (map Num [160, 183]))) (Some 0) ''T'' 5)
     = Some \<lparr>alert_ticker = ''T'', alert_min_price = Num 160, alert_max_price = Num 183,
             alert_fluctuation_percent = Num (8089590830664253 / 2 ^ 49)\<rparr>"
proof -
  have ne: "rising_closes \<noteq> []" by (simp add: rising_closes_def)
  have pos: "0 < Min (set rising_closes)" by (simp add: rising_min_max)
  have a: "notify_if_strong_fluctuations_f64 (store_of (close_frame (map Num rising_closes))) (Some 0) ''T'' 5
     = (Some \<lparr>alert_ticker = ''T'', alert_min_price = Num 100, alert_max_price = Num 200,
              alert_fluctuation_percent = Num 100\<rparr>,
        say (FluctuationPercentLine (Num 100))
          (say (PriceRangeLine (Num 100) (Num 200))
             (say (FluctuationWarning ''T'') (store_of (close_frame (map Num rising_closes))))))"
    using fluctuation_alert_iff_above_threshold [OF close_frame_close ne pos, of 0 "''T''" 5]
    by (simp add: rising_min_max percent_100_200 round2_100)
  have b: "notify_if_strong_fluctuations_f64 (store_of (close_frame (map Num rising_closes))) (Some 0) ''T'' 100
     = (None, store_of (close_frame (map Num rising_closes)))"
    using fluctuation_alert_iff_above_threshold [OF close_frame_close ne pos, of 0 "''T''" 100]
    by (simp add: rising_min_max percent_100_200)
  have m1: "Min (set [100, 107 :: real]) = 100 \<and> Max (set [100, 107 :: real]) = 107"
    by (rule min_max_pair) simp
  have ne1: "[100, 107 :: real] \<noteq> []" by simp
  have pos1: "0 < Min (set [100, 107 :: real])" using m1 by simp
  have gt1: "fgt (Num (7881299347898369 / 2 ^ 50)) (Num 7)" by simp
  have c: "fst (notify_if_strong_fluctuations_f64 (store_of (close_frame (map Num [100, 107]))) (Some 0) ''T'' 7)
     = Some \<lparr>alert_ticker = ''T'', alert_min_price = Num 100, alert_max_price = Num 107,
             alert_fluctuation_percent = Num 7\<rparr>"
    unfolding fluctuation_alert_iff_above_threshold [OF close_frame_close ne1 pos1, of 0 "''T''" 7]
    by (simp only: m1 percent_100_107 round2_7 gt1 if_True fst_conv)
  have m2: "Min (set [160, 183 :: real]) = 160 \<and> Max (set [160, 183 :: real]) = 183"
    by (rule min_max_pair) simp
  have ne2: "[160, 183 :: real] \<noteq> []" by simp
  have pos2: "0 < Min (set [160, 183 :: real])" using m2 by simp
  have gt2: "fgt (Num (8092405580431359 / 2 ^ 49)) (Num 5)" by simp
  have d: "fst (notify_if_strong_fluctuations_f64 (store_of (close_frame (map Num [160, 183]))) (Some 0) ''T'' 5)
     = Some \<lparr>alert_ticker = ''T'', alert_min_price = Num 160, alert_max_price = Num 183,
             alert_fluctuation_percent = Num (8089590830664253 / 2 ^ 49)\<rparr>"
    unfolding fluctuation_alert_iff_above_threshold [OF close_frame_close ne2 pos2, of 0 "''T''" 5]
    by (simp only: m2 percent_160_183 round2_14_37 gt2 if_True fst_conv)
  from a b c d show ?thesis by (intro conjI)
qed

text \<open>
  At a minimum of 0 and a maximum that is a double, the check on exact numbers and the
  check in binary64 are the same; and the check in binary64 writes to no frame either.
\<close>

lemma round2_f64_special: "\<not> is_num v \<Longrightarrow> round2_f64 v = v"
  by (cases v) (simp_all add: round2_f64_def is_num_def)

lemma notify_f64_zero_minimum:
  assumes close: "getitem (frames s r) ''Close'' = Inr (map Num cs)"
    and ne: "cs \<noteq> []"
    and zero: "Min (set cs) = 0"
    and dbl: "is_f64 (Max (set cs))"
  shows "notify_if_strong_fluctuations_f64 s (Some r) ticker threshold
           = notify_if_strong_fluctuations s (Some r) ticker threshold"
proof -
  have sub: "dsub (Num (Max (set cs))) (Num 0) = fsub (Num (Max (set cs))) (Num 0)"
    using dbl by (simp add: is_f64_def fsub_def)
  have rp: "range_percent_f64 (map Num cs) = range_percent (map Num cs)"
    using zero sub
    by (simp add: range_percent_f64_def range_percent_def Let_def
          series_min_Num [OF ne] series_max_Num [OF ne] fsub_def)
  have special: "\<not> is_num (range_percent (map Num cs))"
    using zero
    by (simp add: range_percent_def Let_def series_min_Num [OF ne] series_max_Num [OF ne]
          fsub_def is_num_def)
  have r2: "round2_f64 (range_percent (map Num cs)) = round2 (range_percent (map Num cs))"
    using special by (cases "range_percent (map Num cs)") (simp_all add: round2_f64_special is_num_def)
  show ?thesis
    by (simp add: notify_if_strong_fluctuations_f64_def notify_if_strong_fluctuations_def
          close Let_def rp r2)
qed

lemma frames_notify_f64:
  "frames (snd (notify_if_strong_fluctuations_f64 s data ticker threshold)) = frames s"
  by (simp add: notify_if_strong_fluctuations_f64_def frames_say Let_def
           split: option.splits sum.splits)

end
